theory Spec2Isabelle
  imports Complex_Main "HOL-Library.Multiset" "HOL-Library.Sublist"
begin

section \<open>Ultimate Squeeze Scanner: the scan pipeline of \<open>api/index.py\<close>\<close>

text \<open>
  The handler class of \<open>api/index.py\<close> is embedded function by function. Python
  numbers (\<open>int\<close> and \<open>float\<close>) are exact rationals here: the arithmetic of the
  source is read as exact arithmetic, and the rounding of binary floating point (and its
  values \<open>nan\<close> and \<open>inf\<close>) is outside this model. Everything the source gets from
  outside the repository (the two HTTP services, the interpreter's string hash, the
  standard library's random generator, the iteration order of a \<open>set\<close>, the clock)
  is a parameter.
\<close>

subsection \<open>Python values\<close>

text \<open>
  What \<open>json.loads\<close> returns. \<open>JDict\<close> holds the items of a \<open>dict\<close> in iteration
  order (a \<open>dict\<close> has no two items with the same key). \<open>JNull\<close> is \<open>None\<close>.
\<close>

datatype json =
    JNull
  | JBool bool
  | JNum rat
  | JStr string
  | JList "json list"
  | JDict "(string \<times> json) list"

text \<open>Truthiness, as \<open>if v:\<close> and \<open>not v\<close> and \<open>a or b\<close> judge a value.\<close>

fun py_truthy :: "json \<Rightarrow> bool" where
  "py_truthy JNull = False"
| "py_truthy (JBool b) = b"
| "py_truthy (JNum r) = (r \<noteq> 0)"
| "py_truthy (JStr s) = (s \<noteq> [])"
| "py_truthy (JList l) = (l \<noteq> [])"
| "py_truthy (JDict d) = (d \<noteq> [])"

text \<open>
  \<open>isinstance(value, (int, float))\<close>: a number, or a \<open>bool\<close> (a subclass of \<open>int\<close>
  whose values count as 1 and 0 in arithmetic and in comparisons).
\<close>

fun num_of :: "json \<Rightarrow> rat option" where
  "num_of (JNum r) = Some r"
| "num_of (JBool b) = Some (if b then 1 else 0)"
| "num_of _ = None"

text \<open>\<open>int(x)\<close> on a number: truncation towards zero.\<close>

definition py_int :: "rat \<Rightarrow> int" where
  "py_int x = (if 0 \<le> x then \<lfloor>x\<rfloor> else \<lceil>x\<rceil>)"

text \<open>\<open>sub in s\<close> on strings.\<close>

fun contains :: "string \<Rightarrow> string \<Rightarrow> bool" where
  "contains sub [] = (sub = [])"
| "contains sub (c # cs) = (prefix sub (c # cs) \<or> contains sub cs)"

text \<open>\<open>str.lower\<close> and \<open>str.upper\<close>, on the ASCII letters.\<close>

definition lower_char :: "char \<Rightarrow> char" where
  "lower_char c =
     (let n = of_char c :: nat in if 65 \<le> n \<and> n \<le> 90 then char_of (n + 32) else c)"

definition upper_char :: "char \<Rightarrow> char" where
  "upper_char c =
     (let n = of_char c :: nat in if 97 \<le> n \<and> n \<le> 122 then char_of (n - 32) else c)"

definition lower :: "string \<Rightarrow> string" where
  "lower s = map lower_char s"

definition upper :: "string \<Rightarrow> string" where
  "upper s = map upper_char s"

subsection \<open>Records of the pipeline\<close>

text \<open>
  The metrics dictionary. Both of its producers (\<open>process_ortex_json\<close> and
  \<open>generate_realistic_mock_data\<close>) create all six keys, so it is a record; a numeric
  field is \<open>None\<close> where the dictionary holds Python's \<open>None\<close>.
\<close>

record metrics =
  short_interest :: "rat option"
  utilization :: "rat option"
  cost_to_borrow :: "rat option"
  days_to_cover :: "rat option"
  data_quality :: string
  source :: string

text \<open>
  The dictionary \<open>get_single_price\<close> returns on success (its fields carry the prefix
  \<open>pr_\<close>, those of a scan result below the prefix \<open>res_\<close>).
\<close>

record price_record =
  pr_ticker :: string
  pr_current_price :: rat
  pr_price_change :: rat
  pr_price_change_pct :: rat
  pr_volume :: json

record breakdown =
  bd_short_interest :: int
  bd_utilization :: int
  bd_cost_to_borrow :: int
  bd_days_to_cover :: int
  bd_momentum :: int

text \<open>
  What \<open>calculate_squeeze_score\<close> returns; the dictionary of the \<open>except\<close> branch has no
  \<open>score_breakdown\<close> key.
\<close>

record score_result =
  squeeze_score :: int
  squeeze_type :: string
  risk_factors :: "string list"
  score_breakdown :: "breakdown option"

subsection \<open>Scoring engine\<close>

definition si_score :: "rat \<Rightarrow> rat" where
  "si_score si = min (si * 1.2) 35"

definition util_score :: "rat \<Rightarrow> rat" where
  "util_score util = min (util * 0.25) 25"

definition ctb_score :: "rat \<Rightarrow> rat" where
  "ctb_score ctb = min (ctb * 0.8) 20"

definition dtc_score :: "rat \<Rightarrow> rat" where
  "dtc_score dtc = min (dtc * 1.5) 15"

definition momentum_score :: "rat \<Rightarrow> rat" where
  "momentum_score price_change_pct =
     (if price_change_pct > 0 then max (price_change_pct * 0.3) 0 else 0)"

definition classify_score :: "int \<Rightarrow> string" where
  "classify_score total_score =
     (if total_score \<ge> 80 then ''Extreme Squeeze Risk''
      else if total_score \<ge> 65 then ''High Squeeze Risk''
      else if total_score \<ge> 45 then ''Moderate Squeeze Risk''
      else ''Low Risk'')"

definition risk_tags :: "rat \<Rightarrow> rat \<Rightarrow> rat \<Rightarrow> rat \<Rightarrow> rat \<Rightarrow> string list" where
  "risk_tags si util ctb dtc price_change_pct =
     (if si > 25 then [''EXTREME_SHORT_INTEREST''] else []) @
     (if util > 90 then [''HIGH_UTILIZATION''] else []) @
     (if ctb > 20 then [''HIGH_BORROWING_COSTS''] else []) @
     (if dtc > 7 then [''LONG_COVER_TIME''] else []) @
     (if price_change_pct > 15 then [''STRONG_MOMENTUM''] else [])"

definition error_score :: score_result where
  "error_score =
     \<lparr>squeeze_score = 0, squeeze_type = ''Error'', risk_factors = [], score_breakdown = None\<rparr>"

text \<open>
  \<open>calculate_squeeze_score\<close>. A field that is \<open>None\<close> makes the first product on it
  raise \<open>TypeError\<close>, inside the \<open>try\<close>: the \<open>except\<close> branch returns the error
  result.
\<close>

definition calculate_squeeze_score :: "metrics \<Rightarrow> price_record \<Rightarrow> score_result" where
  "calculate_squeeze_score ortex_data price_data =
     (case (short_interest ortex_data, utilization ortex_data,
            cost_to_borrow ortex_data, days_to_cover ortex_data) of
        (Some si, Some util, Some ctb, Some dtc) \<Rightarrow>
          (let price_change_pct = pr_price_change_pct price_data;
               total_score = py_int (si_score si + util_score util + ctb_score ctb
                                     + dtc_score dtc + momentum_score price_change_pct)
           in \<lparr>squeeze_score = total_score,
               squeeze_type = classify_score total_score,
               risk_factors = risk_tags si util ctb dtc price_change_pct,
               score_breakdown = Some
                 \<lparr>bd_short_interest = py_int (si_score si),
                  bd_utilization = py_int (util_score util),
                  bd_cost_to_borrow = py_int (ctb_score ctb),
                  bd_days_to_cover = py_int (dtc_score dtc),
                  bd_momentum = py_int (momentum_score price_change_pct)\<rparr>\<rparr>)
      | _ \<Rightarrow> error_score)"

subsection \<open>Normalising a metrics payload\<close>

definition initial_metrics :: metrics where
  "initial_metrics =
     \<lparr>short_interest = None, utilization = None, cost_to_borrow = None,
      days_to_cover = None, data_quality = ''live_ortex'', source = ''ortex_api''\<rparr>"

text \<open>The body of the loop over \<open>json_data.items()\<close>.\<close>

definition classify_item :: "metrics \<Rightarrow> string \<times> json \<Rightarrow> metrics" where
  "classify_item processed item =
     (case num_of (snd item) of
        None \<Rightarrow> processed
      | Some v \<Rightarrow>
          (let key_lower = lower (fst item) in
           if contains ''short_interest'' key_lower \<or> contains ''si'' key_lower
             then processed\<lparr>short_interest := Some v\<rparr>
           else if contains ''utilization'' key_lower \<or> contains ''util'' key_lower
             then processed\<lparr>utilization := Some v\<rparr>
           else if contains ''cost_to_borrow'' key_lower \<or> contains ''ctb'' key_lower
             then processed\<lparr>cost_to_borrow := Some v\<rparr>
           else if contains ''days_to_cover'' key_lower \<or> contains ''dtc'' key_lower
             then processed\<lparr>days_to_cover := Some v\<rparr>
           else processed))"

text \<open>The record before the back-fill: the first half of \<open>process_ortex_json\<close>.\<close>

definition parse_fields :: "json \<Rightarrow> metrics" where
  "parse_fields json_data =
     (case json_data of
        JDict items \<Rightarrow> foldl classify_item initial_metrics items
      | _ \<Rightarrow> initial_metrics)"

text \<open>\<open>not processed[k]\<close>: the field is \<open>None\<close> or zero.\<close>

definition falsy :: "rat option \<Rightarrow> bool" where
  "falsy v = (case v of None \<Rightarrow> True | Some x \<Rightarrow> x = 0)"

text \<open>The back-fill: the second half of \<open>process_ortex_json\<close>.\<close>

definition fill_missing :: "metrics \<Rightarrow> metrics" where
  "fill_missing processed =
     (case short_interest processed of
        None \<Rightarrow> processed
      | Some si \<Rightarrow>
          if si = 0 then processed
          else
            (let p1 = (if falsy (utilization processed)
                       then processed\<lparr>utilization := Some (min (si * 3.5) 95)\<rparr>
                       else processed);
                 p2 = (if falsy (days_to_cover p1)
                       then p1\<lparr>days_to_cover := Some (max (si * 0.2) 0.8)\<rparr>
                       else p1);
                 p3 = (if falsy (cost_to_borrow p2)
                       then p2\<lparr>cost_to_borrow := Some (max (si * 0.4) 1.0)\<rparr>
                       else p2)
             in p3))"

definition process_ortex_json :: "json \<Rightarrow> metrics" where
  "process_ortex_json json_data = fill_missing (parse_fields json_data)"

subsection \<open>Metrics fetcher\<close>

text \<open>
  What one request to the metrics service comes to. \<open>Raised\<close>: building the request or
  \<open>urlopen\<close> raised (a timeout, a network error, an \<open>HTTPError\<close> for a status that
  is not 2xx). \<open>Response code content_type body\<close>: a response arrived; its header
  \<open>Content-Type\<close> is the empty string when absent; its body is \<open>Undecodable\<close> when
  reading or decoding it raises, \<open>Malformed\<close> when \<open>json.loads\<close> raises
  \<open>JSONDecodeError\<close>, and \<open>Parsed j\<close> otherwise.
\<close>

datatype payload = Undecodable | Malformed | Parsed json

datatype http_outcome = Raised | Response int string payload

text \<open>
  The body of the loop over the endpoints: \<open>Some\<close> is the \<open>return\<close>, \<open>None\<close> is
  going on to the next endpoint (by \<open>continue\<close> or by reaching the end of the body).
\<close>

definition attempt :: "http_outcome \<Rightarrow> metrics option" where
  "attempt outcome =
     (case outcome of
        Raised \<Rightarrow> None
      | Response code content_type body \<Rightarrow>
          if code = 200 then
            if contains ''application/json'' content_type then
              (case body of
                 Parsed json_data \<Rightarrow> Some (process_ortex_json json_data)
               | Malformed \<Rightarrow> None
               | Undecodable \<Rightarrow> None)
            else None
          else None)"

definition working_endpoints :: "string \<Rightarrow> string list" where
  "working_endpoints tk =
     [''https://api.ortex.com/api/v1/stock/nasdaq/'' @ tk @ ''/short_interest'',
      ''https://api.ortex.com/api/v1/stock/nyse/'' @ tk @ ''/short_interest'']"

text \<open>
  The loop, with the list of the URLs it requested. \<open>net url key\<close> is the outcome of
  the request to \<open>url\<close> that carries \<open>key\<close> in its header.
\<close>

fun try_endpoints ::
  "(string \<Rightarrow> json \<Rightarrow> http_outcome) \<Rightarrow> json \<Rightarrow> string list \<Rightarrow> metrics option \<times> string list"
where
  "try_endpoints net ortex_key [] = (None, [])"
| "try_endpoints net ortex_key (url # urls) =
     (case attempt (net url ortex_key) of
        Some processed \<Rightarrow> (Some processed, [url])
      | None \<Rightarrow>
          (let (r, requested) = try_endpoints net ortex_key urls
           in (r, url # requested)))"

definition get_fast_ortex_data ::
  "(string \<Rightarrow> json \<Rightarrow> http_outcome) \<Rightarrow> string \<Rightarrow> json \<Rightarrow> metrics option \<times> string list"
where
  "get_fast_ortex_data net tk ortex_key =
     (if \<not> py_truthy ortex_key then (None, [])
      else try_endpoints net ortex_key (working_endpoints tk))"

subsection \<open>Price fetcher\<close>

text \<open>\<open>round(x, n)\<close> on exact numbers: to the nearest multiple of \<open>10^-n\<close>, ties to even.\<close>

definition round_half_even :: "rat \<Rightarrow> int" where
  "round_half_even x =
     (let f = \<lfloor>x\<rfloor>; d = x - of_int f
      in if d < 1 / 2 then f else if 1 / 2 < d then f + 1 else if even f then f else f + 1)"

definition py_round :: "rat \<Rightarrow> nat \<Rightarrow> rat" where
  "py_round x n = of_int (round_half_even (x * 10 ^ n)) / 10 ^ n"

text \<open>
  The three values \<open>get_single_price\<close> reads from the quote service's answer. The
  service is the parameter \<open>yahoo\<close>: \<open>None\<close> stands for every lookup that gives no
  record (an exception, a timeout, an answer without a chart result).
\<close>

record quote_meta =
  regularMarketPrice :: rat
  previousClose :: rat
  regularMarketVolume :: json

definition get_single_price :: "(string \<Rightarrow> quote_meta option) \<Rightarrow> string \<Rightarrow> price_record option" where
  "get_single_price yahoo tk =
     (case yahoo tk of
        None \<Rightarrow> None
      | Some meta \<Rightarrow>
          (let current_price = regularMarketPrice meta;
               previous_close = previousClose meta;
               price_change = (if previous_close \<noteq> 0 then current_price - previous_close else 0);
               price_change_pct =
                 (if previous_close \<noteq> 0 then price_change / previous_close * 100 else 0)
           in Some \<lparr>pr_ticker = tk,
                    pr_current_price = py_round current_price 2,
                    pr_price_change = py_round price_change 2,
                    pr_price_change_pct = py_round price_change_pct 2,
                    pr_volume = regularMarketVolume meta\<rparr>))"

text \<open>
  \<open>get_yahoo_price_data\<close>: one lookup per ticker, run by a thread pool; the successful
  ones are stored under their ticker. The order in which the lookups complete does not
  show in the dictionary; wall-clock limits are outside this model.
\<close>

fun get_yahoo_price_data ::
  "(string \<Rightarrow> quote_meta option) \<Rightarrow> string list \<Rightarrow> (string \<rightharpoonup> price_record)"
where
  "get_yahoo_price_data yahoo [] = Map.empty"
| "get_yahoo_price_data yahoo (tk # tickers) =
     (case get_single_price yahoo tk of
        Some r \<Rightarrow> (get_yahoo_price_data yahoo tickers)(pr_ticker r \<mapsto> r)
      | None \<Rightarrow> get_yahoo_price_data yahoo tickers)"

subsection \<open>Ticker universe\<close>

text \<open>The dictionary \<open>ticker_universe\<close>, as its items in insertion order.\<close>

definition ticker_universe :: "(string \<times> string list) list" where
  "ticker_universe =
     [(''top_meme_stocks'',
        [''GME'', ''AMC'', ''BBBY'', ''SAVA'', ''VXRT'', ''CLOV'', ''SPRT'', ''IRNT'',
         ''DWAC'', ''PHUN'', ''PROG'', ''ATER'', ''BBIG'', ''MULN'', ''EXPR'', ''KOSS'']),
      (''high_short_interest'',
        [''BYND'', ''PTON'', ''ROKU'', ''UPST'', ''AFRM'', ''HOOD'', ''COIN'', ''RIVN'',
         ''LCID'', ''NKLA'', ''PLUG'', ''BLNK'', ''QS'', ''GOEV'', ''RIDE'', ''WKHS'']),
      (''biotech_squeeze'',
        [''BIIB'', ''GILD'', ''REGN'', ''BMRN'', ''ALNY'', ''SRPT'', ''IONS'', ''ARWR'',
         ''EDIT'', ''CRSP'', ''NTLA'', ''BEAM'', ''BLUE'', ''FOLD'', ''RARE'', ''KRYS'']),
      (''small_cap_movers'',
        [''SPCE'', ''DKNG'', ''PENN'', ''FUBO'', ''WISH'', ''RBLX'', ''PLTR'', ''SNOW'',
         ''CRWD'', ''OKTA'', ''DDOG'', ''NET'', ''FSLY'', ''ESTC'', ''ZM'', ''DOCN'']),
      (''large_cap_samples'',
        [''AAPL'', ''TSLA'', ''META'', ''NFLX'', ''NVDA'', ''GOOGL'', ''AMZN'', ''MSFT''])]"

text \<open>
  The comprehension \<open>[x for x in xs if not (x in seen or seen.add(x))]\<close>: an element
  is kept where it is not in \<open>seen\<close>, and is then added to \<open>seen\<close>.
\<close>

fun dedup :: "'a set \<Rightarrow> 'a list \<Rightarrow> 'a list" where
  "dedup seen [] = []"
| "dedup seen (x # xs) = (if x \<in> seen then dedup seen xs else x # dedup (insert x seen) xs)"

definition master_ticker_list :: "string list" where
  "master_ticker_list = dedup {} (concat (map snd ticker_universe))"

text \<open>\<open>self.ticker_universe.get(category, [])\<close>.\<close>

definition universe_get :: "string \<Rightarrow> string list" where
  "universe_get category =
     (case map_of ticker_universe category of Some tickers \<Rightarrow> tickers | None \<Rightarrow> [])"

subsection \<open>What the pipeline takes from outside\<close>

text \<open>
  \<open>w_yahoo\<close> and \<open>w_net\<close> are the quote service and the metrics service;
  \<open>w_hash\<close> is the interpreter's \<open>hash\<close> on strings; \<open>w_seed n\<close> is the state
  \<open>random.seed(n)\<close> puts the module's generator in, and \<open>w_uniform g a b\<close> is the
  value \<open>random.uniform(a, b)\<close> returns in state \<open>g\<close> with the state it leaves;
  \<open>w_set_order xs\<close> is \<open>list(set(xs))\<close>; \<open>w_env_key\<close> is the environment variable
  \<open>ORTEX_API_KEY\<close>.
\<close>

record 'g world =
  w_yahoo :: "string \<Rightarrow> quote_meta option"
  w_net :: "string \<Rightarrow> json \<Rightarrow> http_outcome"
  w_hash :: "string \<Rightarrow> int"
  w_seed :: "int \<Rightarrow> 'g"
  w_uniform :: "'g \<Rightarrow> rat \<Rightarrow> rat \<Rightarrow> rat \<times> 'g"
  w_set_order :: "string list \<Rightarrow> string list"
  w_env_key :: "string option"

subsection \<open>Synthetic metrics generator\<close>

record profile =
  p_si :: rat
  p_util :: rat
  p_ctb :: rat
  p_dtc :: rat

definition known_profiles :: "(string \<times> profile) list" where
  "known_profiles =
     [(''GME'', \<lparr>p_si = 22.4, p_util = 89.2, p_ctb = 12.8, p_dtc = 4.1\<rparr>),
      (''AMC'', \<lparr>p_si = 18.7, p_util = 82.1, p_ctb = 8.9, p_dtc = 3.8\<rparr>),
      (''SAVA'', \<lparr>p_si = 35.2, p_util = 95.1, p_ctb = 45.8, p_dtc = 12.3\<rparr>),
      (''VXRT'', \<lparr>p_si = 28.9, p_util = 87.6, p_ctb = 18.2, p_dtc = 8.7\<rparr>),
      (''BBBY'', \<lparr>p_si = 42.1, p_util = 98.2, p_ctb = 78.5, p_dtc = 15.8\<rparr>),
      (''BYND'', \<lparr>p_si = 31.5, p_util = 91.7, p_ctb = 25.3, p_dtc = 9.2\<rparr>),
      (''PTON'', \<lparr>p_si = 26.8, p_util = 84.5, p_ctb = 15.7, p_dtc = 6.8\<rparr>)]"

text \<open>
  The \<open>else\<close> branch of the loop body: the generator is seeded from the ticker, then
  drawn from four times, the ranges of the first three draws chosen by the category.
\<close>

definition draw_profile :: "'g world \<Rightarrow> string \<Rightarrow> profile \<times> 'g" where
  "draw_profile w tk =
     (let g0 = w_seed w (w_hash w tk mod 10000);
          (r_si, r_util, r_ctb) =
            (if tk \<in> set (universe_get ''top_meme_stocks'')
               then ((15, 35), (75, 95), (10, 40))
             else if tk \<in> set (universe_get ''biotech_squeeze'')
               then ((20, 40), (80, 98), (15, 60))
             else if tk \<in> set (universe_get ''large_cap_samples'')
               then ((1, 6), (20, 50), (0.5, 3))
             else ((8, 25), (50, 85), (3, 20)));
          (si_base, g1) = w_uniform w g0 (fst r_si) (snd r_si);
          (util_base, g2) = w_uniform w g1 (fst r_util) (snd r_util);
          (ctb_base, g3) = w_uniform w g2 (fst r_ctb) (snd r_ctb);
          (factor, g4) = w_uniform w g3 0.2 0.5
      in (\<lparr>p_si = py_round si_base 1,
           p_util = py_round util_base 1,
           p_ctb = py_round ctb_base 1,
           p_dtc = py_round (si_base * factor) 1\<rparr>, g4))"

definition mock_record :: "profile \<Rightarrow> metrics" where
  "mock_record profile =
     \<lparr>short_interest = Some (p_si profile),
      utilization = Some (p_util profile),
      cost_to_borrow = Some (p_ctb profile),
      days_to_cover = Some (p_dtc profile),
      data_quality = ''realistic_estimate'',
      source = ''enhanced_modeling''\<rparr>"

text \<open>The loop body, on the dictionary built so far and the state of the generator.\<close>

definition mock_step ::
  "'g world \<Rightarrow> string \<Rightarrow> (string \<rightharpoonup> metrics) \<times> 'g \<Rightarrow> (string \<rightharpoonup> metrics) \<times> 'g"
where
  "mock_step w tk st =
     (let (mock_data, g) = st;
          (profile, g') =
            (case map_of known_profiles tk of
               Some known \<Rightarrow> (known, g)
             | None \<Rightarrow> draw_profile w tk)
      in (mock_data(tk \<mapsto> mock_record profile), g'))"

definition generate_realistic_mock_data ::
  "'g world \<Rightarrow> 'g \<Rightarrow> string list \<Rightarrow> (string \<rightharpoonup> metrics) \<times> 'g"
where
  "generate_realistic_mock_data w g tickers = fold (mock_step w) tickers (Map.empty, g)"

subsection \<open>Scan orchestrator\<close>

text \<open>
  The \<open>filters\<close> argument of \<open>perform_production_scan\<close> is \<open>None\<close> here when it is
  falsy in the source (\<open>None\<close> or the empty dictionary) and \<open>Some f\<close> otherwise, with
  \<open>f_categories f\<close> the list under \<open>categories\<close> (empty when the key is absent or its
  value falsy) and \<open>f_max_tickers f\<close> the integer under \<open>max_tickers\<close>, if any.
\<close>

record filters =
  f_categories :: "string list"
  f_max_tickers :: "int option"

text \<open>The slice \<open>xs[:n]\<close>; a negative \<open>n\<close> counts from the end.\<close>

definition py_prefix :: "int \<Rightarrow> 'a list \<Rightarrow> 'a list" where
  "py_prefix n xs = (if 0 \<le> n then take (nat n) xs else take (length xs - nat (- n)) xs)"

text \<open>
  The choice of the tickers, before the batch is cut to its size: the copy of the master
  list, replaced by \<open>list(set(filtered_tickers))\<close> when categories are given.
\<close>

definition select_tickers :: "(string list \<Rightarrow> string list) \<Rightarrow> filters option \<Rightarrow> string list" where
  "select_tickers set_order filters =
     (case filters of
        None \<Rightarrow> master_ticker_list
      | Some f \<Rightarrow>
          if f_categories f \<noteq> []
          then set_order
                 (concat (map (\<lambda>category.
                    case map_of ticker_universe category of
                      Some tickers \<Rightarrow> tickers
                    | None \<Rightarrow> []) (f_categories f)))
          else master_ticker_list)"

text \<open>The cut: \<open>min(max_tickers, 15)\<close> with filters, 10 without.\<close>

definition limit_batch :: "filters option \<Rightarrow> string list \<Rightarrow> string list" where
  "limit_batch filters scan_tickers =
     (case filters of
        None \<Rightarrow> take 10 scan_tickers
      | Some f \<Rightarrow>
          (let max_tickers = min (case f_max_tickers f of Some n \<Rightarrow> n | None \<Rightarrow> 10) 15
           in py_prefix max_tickers scan_tickers))"

text \<open>
  A result of the scan. The \<open>timestamp\<close> of a result, and the elapsed time and the
  performance rating of the statistics, are readings of the clock and are left out.
\<close>

record scan_result =
  res_ticker :: string
  res_squeeze_score :: int
  res_squeeze_type :: string
  res_current_price :: rat
  res_price_change :: rat
  res_price_change_pct :: rat
  res_volume :: json
  res_ortex_data :: metrics
  res_risk_factors :: "string list"
  res_data_quality :: string

definition make_result :: "string \<Rightarrow> metrics \<Rightarrow> price_record \<Rightarrow> scan_result" where
  "make_result tk ortex price =
     (let squeeze_metrics = calculate_squeeze_score ortex price
      in \<lparr>res_ticker = tk,
          res_squeeze_score = squeeze_score squeeze_metrics,
          res_squeeze_type = squeeze_type squeeze_metrics,
          res_current_price = pr_current_price price,
          res_price_change = pr_price_change price,
          res_price_change_pct = pr_price_change_pct price,
          res_volume = pr_volume price,
          res_ortex_data = ortex,
          res_risk_factors = risk_factors squeeze_metrics,
          res_data_quality = data_quality ortex\<rparr>)"

text \<open>
  \<open>results.sort(key=lambda x: x['squeeze_score'], reverse=True)\<close>. Python's sort is
  stable, also with \<open>reverse=True\<close>; it is the stable insertion sort on the negated
  score here.
\<close>

definition rank :: "scan_result list \<Rightarrow> scan_result list" where
  "rank rs = sort_key (\<lambda>r. - res_squeeze_score r) rs"

text \<open>The network requests a run makes.\<close>

datatype request = Quote_Request string | Ortex_Request string

text \<open>
  The body of the loop over \<open>successful_tickers[:5]\<close>, on the dictionary of live
  records, the count of live records and the URLs requested so far.
\<close>

definition live_step ::
  "(string \<Rightarrow> json \<Rightarrow> http_outcome) \<Rightarrow> json \<Rightarrow> string \<Rightarrow>
   (string \<rightharpoonup> metrics) \<times> nat \<times> string list \<Rightarrow> (string \<rightharpoonup> metrics) \<times> nat \<times> string list"
where
  "live_step net ortex_key tk st =
     (let (ortex_data, live_count, requested) = st;
          (ortex_result, urls) = get_fast_ortex_data net tk ortex_key
      in case ortex_result of
           Some r \<Rightarrow> (ortex_data(tk \<mapsto> r), live_count + 1, requested @ urls)
         | None \<Rightarrow> (ortex_data, live_count, requested @ urls))"

text \<open>The loop that fills the tickers without a live record from the mock data.\<close>

fun fill_remaining ::
  "(string \<rightharpoonup> metrics) \<Rightarrow> string list \<Rightarrow> (string \<rightharpoonup> metrics) \<Rightarrow> (string \<rightharpoonup> metrics)"
where
  "fill_remaining mock_data [] ortex_data = ortex_data"
| "fill_remaining mock_data (tk # tickers) ortex_data =
     fill_remaining mock_data tickers
       (if ortex_data tk = None then ortex_data(tk := mock_data tk) else ortex_data)"

record 'g scan_outcome =
  results :: "scan_result list"
  total_tickers_scanned :: nat
  successful_analysis :: nat
  live_ortex_count :: nat
  scan_requests :: "request list"
  scan_rng :: 'g

definition perform_production_scan ::
  "'g world \<Rightarrow> 'g \<Rightarrow> json \<Rightarrow> filters option \<Rightarrow> 'g scan_outcome"
where
  "perform_production_scan w g ortex_key filters =
     (let scan_tickers = limit_batch filters (select_tickers (w_set_order w) filters);
          price_data = get_yahoo_price_data (w_yahoo w) scan_tickers;
          successful_tickers = filter (\<lambda>t. price_data t \<noteq> None) scan_tickers;
          (live_data, live_count, urls) =
            (if py_truthy ortex_key \<and> length successful_tickers \<le> 8
             then fold (live_step (w_net w) ortex_key) (take 5 successful_tickers)
                    (Map.empty, 0, [])
             else (Map.empty, 0, []));
          (mock_data, g') = generate_realistic_mock_data w g successful_tickers;
          ortex_data = fill_remaining mock_data successful_tickers live_data;
          merged = concat (map (\<lambda>t.
                     case (ortex_data t, price_data t) of
                       (Some ortex, Some price) \<Rightarrow> [make_result t ortex price]
                     | _ \<Rightarrow> []) successful_tickers)
      in \<lparr>results = rank merged,
          total_tickers_scanned = length scan_tickers,
          successful_analysis = length merged,
          live_ortex_count = live_count,
          scan_requests = map Quote_Request scan_tickers @ map Ortex_Request urls,
          scan_rng = g'\<rparr>)"

subsection \<open>Single-ticker handler\<close>

text \<open>
  The body of a POST request as the handler reads it: \<open>NoBody\<close> when no bytes are read
  (\<open>data\<close> is then the empty dictionary), \<open>BadBody\<close> when reading, decoding or parsing
  raises, \<open>Body j\<close> when \<open>json.loads\<close> returns \<open>j\<close>.
\<close>

datatype request_body = NoBody | BadBody | Body json

record single_result = scan_result +
  res_score_breakdown :: "breakdown option"

text \<open>
  The JSON document sent back: \<open>Failure msg\<close> is \<open>{success: false, error: msg}\<close> with
  a message of the handler, \<open>Fault\<close> is the same shape with the text of a caught
  exception, \<open>Result r\<close> is \<open>{success: true, result: r}\<close>.
\<close>

datatype reply = Failure string | Fault | Result single_result

fun success :: "reply \<Rightarrow> bool" where
  "success (Failure msg) = False"
| "success Fault = False"
| "success (Result r) = True"

record 'g handled =
  status :: int
  reply :: reply
  sent_requests :: "request list"
  rng_after :: 'g

text \<open>\<open>data.get(key, default)\<close> on the items of a dictionary.\<close>

definition dict_get :: "(string \<times> json) list \<Rightarrow> string \<Rightarrow> json \<Rightarrow> json" where
  "dict_get items k dflt = (case map_of items k of Some v \<Rightarrow> v | None \<Rightarrow> dflt)"

text \<open>\<open>data.get('ortex_key') or self.get_ortex_key()\<close>.\<close>

definition choose_key :: "'g world \<Rightarrow> (string \<times> json) list \<Rightarrow> json" where
  "choose_key w items =
     (let v = dict_get items ''ortex_key'' JNull
      in if py_truthy v then v
         else (case w_env_key w of Some k \<Rightarrow> JStr k | None \<Rightarrow> JNull))"

text \<open>The handler from the line that reads the ticker, \<open>data\<close> being a dictionary.\<close>

definition single_scan :: "'g world \<Rightarrow> 'g \<Rightarrow> (string \<times> json) list \<Rightarrow> 'g handled" where
  "single_scan w g items =
     (case dict_get items ''ticker'' (JStr []) of
        JStr s \<Rightarrow>
          (let tk = upper s;
               ortex_key = choose_key w items
           in if tk = [] then
                \<lparr>status = 400, reply = Failure ''No ticker provided'',
                 sent_requests = [], rng_after = g\<rparr>
              else
                (case get_yahoo_price_data (w_yahoo w) [tk] tk of
                   None \<Rightarrow>
                     \<lparr>status = 400, reply = Failure ''Failed to get price data'',
                      sent_requests = [Quote_Request tk], rng_after = g\<rparr>
                 | Some price \<Rightarrow>
                     (let (live, urls) =
                            (if py_truthy ortex_key
                             then get_fast_ortex_data (w_net w) tk ortex_key
                             else (None, []));
                          sent = Quote_Request tk # map Ortex_Request urls
                      in case live of
                           Some ortex \<Rightarrow>
                             \<lparr>status = 200,
                              reply = Result (scan_result.extend (make_result tk ortex price)
                                (single_result.fields
                                   (score_breakdown (calculate_squeeze_score ortex price)))),
                              sent_requests = sent, rng_after = g\<rparr>
                         | None \<Rightarrow>
                             (let (mock_data, g') = generate_realistic_mock_data w g [tk]
                              in case mock_data tk of
                                   Some ortex \<Rightarrow>
                                     \<lparr>status = 200,
                                      reply = Result (scan_result.extend
                                        (make_result tk ortex price)
                                        (single_result.fields
                                           (score_breakdown
                                              (calculate_squeeze_score ortex price)))),
                                      sent_requests = sent, rng_after = g'\<rparr>
                                 | None \<Rightarrow>
                                     \<lparr>status = 500, reply = Fault,
                                      sent_requests = sent, rng_after = g'\<rparr>))))
      | _ \<Rightarrow> \<lparr>status = 500, reply = Fault, sent_requests = [], rng_after = g\<rparr>)"

text \<open>
  \<open>handle_single_scan\<close>: every exception is caught at the end of the handler and
  answered with status 500.
\<close>

definition handle_single_scan :: "'g world \<Rightarrow> 'g \<Rightarrow> request_body \<Rightarrow> 'g handled" where
  "handle_single_scan w g body =
     (case body of
        BadBody \<Rightarrow> \<lparr>status = 500, reply = Fault, sent_requests = [], rng_after = g\<rparr>
      | NoBody \<Rightarrow> single_scan w g []
      | Body (JDict items) \<Rightarrow> single_scan w g items
      | Body _ \<Rightarrow> \<lparr>status = 500, reply = Fault, sent_requests = [], rng_after = g\<rparr>)"

section \<open>Properties\<close>

subsection \<open>Scoring engine\<close>

lemma floor_rat_numeral [simp]:
  "\<lfloor>numeral a / numeral b :: rat\<rfloor> = numeral a div numeral b"
  using floor_divide_of_int_eq [of "numeral a" "numeral b", where ?'a = rat] by simp

lemma floor_rat_neg_numeral [simp]:
  "\<lfloor>- (numeral a / numeral b) :: rat\<rfloor> = - numeral a div numeral b"
  using floor_divide_of_int_eq [of "- numeral a" "numeral b", where ?'a = rat] by simp

lemma ceiling_rat_numeral [simp]:
  "\<lceil>numeral a / numeral b :: rat\<rceil> = - (- numeral a div numeral b)"
  using floor_rat_neg_numeral [of a b] by (simp add: ceiling_def)

lemma ceiling_rat_neg_numeral [simp]:
  "\<lceil>- (numeral a / numeral b) :: rat\<rceil> = - (numeral a div numeral b)"
  using floor_rat_numeral [of a b] by (simp add: ceiling_def)









subsection \<open>Normalisation and back-fill\<close>
















subsection \<open>Metrics fetcher\<close>







subsection \<open>Ranking\<close>

lemma rank_descending:
  "sorted_wrt (\<lambda>a b. res_squeeze_score b \<le> res_squeeze_score a) (rank rs)"
proof -
  have "sorted (map (\<lambda>r. - res_squeeze_score r) (rank rs))"
    unfolding rank_def by (rule sorted_sort_key)
  then show ?thesis
    by (simp add: sorted_map)
qed

lemma rank_stable:
  "filter (\<lambda>r. res_squeeze_score r = k) (rank rs) = filter (\<lambda>r. res_squeeze_score r = k) rs"
proof -
  have "filter (\<lambda>r. - res_squeeze_score r = - k) (sort_key (\<lambda>r. - res_squeeze_score r) rs)
        = filter (\<lambda>r. - res_squeeze_score r = - k) rs"
    by (rule sort_key_stable)
  then show ?thesis
    by (simp add: rank_def)
qed

lemma rank_three:
  assumes "map res_squeeze_score rs = [30, 90, 60]"
  shows "map res_squeeze_score (rank rs) = [90, 60, 30]"
proof -
  from assms obtain a b c where rs: "rs = [a, b, c]"
    and s: "res_squeeze_score a = 30" "res_squeeze_score b = 90" "res_squeeze_score c = 60"
    by auto
  show ?thesis
    by (simp add: rs rank_def s)
qed

text \<open>
  C3: for every list of merged results, the RANK step returns the same multiset of
  results, in descending order of squeeze score, and stably: the results of any one
  score \<open>k\<close> come out in the order they went in. Results with the scores 30, 90, 60
  come out as 90, 60, 30. The results of a scan are in this order.
\<close>

theorem rank_sorted_stable:
  "mset (rank rs) = mset rs
   \<and> sorted_wrt (\<lambda>a b. res_squeeze_score b \<le> res_squeeze_score a) (rank rs)
   \<and> filter (\<lambda>r. res_squeeze_score r = k) (rank rs) = filter (\<lambda>r. res_squeeze_score r = k) rs
   \<and> (map res_squeeze_score rs = [30, 90, 60] \<longrightarrow>
        map res_squeeze_score (rank rs) = [90, 60, 30])
   \<and> sorted_wrt (\<lambda>a b. res_squeeze_score b \<le> res_squeeze_score a)
        (results (perform_production_scan w g ortex_key filters))"
proof (intro conjI impI)
  show "mset (rank rs) = mset rs"
    by (simp add: rank_def)
  show "sorted_wrt (\<lambda>a b. res_squeeze_score b \<le> res_squeeze_score a) (rank rs)"
    by (rule rank_descending)
  show "filter (\<lambda>r. res_squeeze_score r = k) (rank rs) = filter (\<lambda>r. res_squeeze_score r = k) rs"
    by (rule rank_stable)
  show "map res_squeeze_score (rank rs) = [90, 60, 30]"
    if "map res_squeeze_score rs = [30, 90, 60]"
    using that by (rule rank_three)
  show "sorted_wrt (\<lambda>a b. res_squeeze_score b \<le> res_squeeze_score a)
        (results (perform_production_scan w g ortex_key filters))"
    by (simp add: perform_production_scan_def Let_def split_def rank_descending)
qed

text \<open>
  Three results with the scores 30, 90, 60; and four, of which B and D tie at 90 and
  keep their order.
\<close>

theorem rank_sorted_stable_witness:
  "map res_squeeze_score
     (rank
       [\<lparr>res_ticker = ''A'', res_squeeze_score = 30, res_squeeze_type = ''Low Risk'',
         res_current_price = 10, res_price_change = 0, res_price_change_pct = 0,
         res_volume = JNum 1000,
         res_ortex_data = mock_record \<lparr>p_si = 20, p_util = 80, p_ctb = 10, p_dtc = 4\<rparr>,
         res_risk_factors = [], res_data_quality = ''realistic_estimate''\<rparr>,
        \<lparr>res_ticker = ''B'', res_squeeze_score = 90, res_squeeze_type = ''Extreme Squeeze Risk'',
         res_current_price = 10, res_price_change = 0, res_price_change_pct = 0,
         res_volume = JNum 1000,
         res_ortex_data = mock_record \<lparr>p_si = 20, p_util = 80, p_ctb = 10, p_dtc = 4\<rparr>,
         res_risk_factors = [], res_data_quality = ''realistic_estimate''\<rparr>,
        \<lparr>res_ticker = ''C'', res_squeeze_score = 60, res_squeeze_type = ''Moderate Squeeze Risk'',
         res_current_price = 10, res_price_change = 0, res_price_change_pct = 0,
         res_volume = JNum 1000,
         res_ortex_data = mock_record \<lparr>p_si = 20, p_util = 80, p_ctb = 10, p_dtc = 4\<rparr>,
         res_risk_factors = [], res_data_quality = ''realistic_estimate''\<rparr>]) = [90, 60, 30]
   \<and> map res_ticker
     (rank
       [\<lparr>res_ticker = ''A'', res_squeeze_score = 30, res_squeeze_type = ''Low Risk'',
         res_current_price = 10, res_price_change = 0, res_price_change_pct = 0,
         res_volume = JNum 1000,
         res_ortex_data = mock_record \<lparr>p_si = 20, p_util = 80, p_ctb = 10, p_dtc = 4\<rparr>,
         res_risk_factors = [], res_data_quality = ''realistic_estimate''\<rparr>,
        \<lparr>res_ticker = ''B'', res_squeeze_score = 90, res_squeeze_type = ''Extreme Squeeze Risk'',
         res_current_price = 10, res_price_change = 0, res_price_change_pct = 0,
         res_volume = JNum 1000,
         res_ortex_data = mock_record \<lparr>p_si = 20, p_util = 80, p_ctb = 10, p_dtc = 4\<rparr>,
         res_risk_factors = [], res_data_quality = ''realistic_estimate''\<rparr>,
        \<lparr>res_ticker = ''C'', res_squeeze_score = 60, res_squeeze_type = ''Moderate Squeeze Risk'',
         res_current_price = 10, res_price_change = 0, res_price_change_pct = 0,
         res_volume = JNum 1000,
         res_ortex_data = mock_record \<lparr>p_si = 20, p_util = 80, p_ctb = 10, p_dtc = 4\<rparr>,
         res_risk_factors = [], res_data_quality = ''realistic_estimate''\<rparr>,
        \<lparr>res_ticker = ''D'', res_squeeze_score = 90, res_squeeze_type = ''Extreme Squeeze Risk'',
         res_current_price = 10, res_price_change = 0, res_price_change_pct = 0,
         res_volume = JNum 1000,
         res_ortex_data = mock_record \<lparr>p_si = 20, p_util = 80, p_ctb = 10, p_dtc = 4\<rparr>,
         res_risk_factors = [], res_data_quality = ''realistic_estimate''\<rparr>]) = [''B'', ''D'', ''C'', ''A'']"
  using
    rank_sorted_stable
      [of "[\<lparr>res_ticker = ''A'', res_squeeze_score = 30, res_squeeze_type = ''Low Risk'',
         res_current_price = 10, res_price_change = 0, res_price_change_pct = 0,
         res_volume = JNum 1000,
         res_ortex_data = mock_record \<lparr>p_si = 20, p_util = 80, p_ctb = 10, p_dtc = 4\<rparr>,
         res_risk_factors = [], res_data_quality = ''realistic_estimate''\<rparr>,
        \<lparr>res_ticker = ''B'', res_squeeze_score = 90, res_squeeze_type = ''Extreme Squeeze Risk'',
         res_current_price = 10, res_price_change = 0, res_price_change_pct = 0,
         res_volume = JNum 1000,
         res_ortex_data = mock_record \<lparr>p_si = 20, p_util = 80, p_ctb = 10, p_dtc = 4\<rparr>,
         res_risk_factors = [], res_data_quality = ''realistic_estimate''\<rparr>,
        \<lparr>res_ticker = ''C'', res_squeeze_score = 60, res_squeeze_type = ''Moderate Squeeze Risk'',
         res_current_price = 10, res_price_change = 0, res_price_change_pct = 0,
         res_volume = JNum 1000,
         res_ortex_data = mock_record \<lparr>p_si = 20, p_util = 80, p_ctb = 10, p_dtc = 4\<rparr>,
         res_risk_factors = [], res_data_quality = ''realistic_estimate''\<rparr>]" 90]
  by (simp add: rank_def)

subsection \<open>Ticker universe\<close>



lemma dedup_subseq: "subseq (dedup seen xs) xs"
  by (induction xs arbitrary: seen) auto









end
